theory Spec2Isabelle
  imports Complex_Main "HOL-Library.Word"
begin

section \<open>Python values, exceptions and the library boundary\<close>

text \<open>
  The monitoring program (\<^verbatim>\<open>async_poller.py\<close>, \<^verbatim>\<open>dbhelper.py\<close>) builds one
  dictionary per fetch and appends it to one of two deques; two dumper tasks drain the
  deques into PostgreSQL. Dictionaries are maps from key to value, deques are lists
  (left end first), \<^verbatim>\<open>bytes\<close> are lists of 8-bit words and \<^verbatim>\<open>str\<close> is
  \<^typ>\<open>string\<close>. Points in time (\<^verbatim>\<open>datetime\<close>) are seconds on the real line and
  \<^verbatim>\<open>timedelta.total_seconds()\<close> is their difference; the rounding of Python floats
  is not modelled.
\<close>

type_synonym byte = "8 word"

datatype pyval =
    PyNone
  | PyBool bool
  | PyInt int
  | PyFloat real
  | PyStr string
  | PyDatetime real
  | PyTuple "pyval list"

type_synonym pydict = "string \<rightharpoonup> pyval"

text \<open>
  A raised object carries the qualified name of its class and the text \<^verbatim>\<open>str(error)\<close>.
  \<^verbatim>\<open>except Exception\<close> catches the instances of \<^verbatim>\<open>Exception\<close> only; an object whose
  class derives from \<^verbatim>\<open>BaseException\<close> alone (\<^verbatim>\<open>asyncio.CancelledError\<close>,
  \<^verbatim>\<open>KeyboardInterrupt\<close>, \<^verbatim>\<open>SystemExit\<close>) passes through such a handler.
\<close>

datatype py_raise =
    Exception string string
  | BaseException string string

fun is_Exception :: "py_raise \<Rightarrow> bool" where
  "is_Exception (Exception cls msg) = True"
| "is_Exception (BaseException cls msg) = False"

text \<open>\<^verbatim>\<open>str(type(error))\<close> of a class named \<open>cls\<close> is \<^verbatim>\<open><class 'cls'>\<close>.\<close>

definition str_type :: "string \<Rightarrow> string" where
  "str_type cls = ''<class '' @ [CHR 0x27] @ cls @ [CHR 0x27] @ ''>''"

datatype re_flag = IGNORECASE | MULTILINE | DOTALL

record re_Pattern =
  pattern_source :: string
  pattern_flags :: "re_flag list"

text \<open>
  The standard library and the HTTP client are not part of the repository; what the
  program needs of them is a parameter of the model:
  \<^item> \<open>utf_decode\<close>: \<^verbatim>\<open>bytes.decode('utf')\<close>, the decoded text or the message of the
    \<^verbatim>\<open>UnicodeDecodeError\<close> it raises;
  \<^item> \<open>re_syntax_error\<close>: the message of the \<^verbatim>\<open>re.error\<close> that \<^verbatim>\<open>re.compile\<close>
    raises on a source it rejects;
  \<^item> \<open>re_match_at\<close>: whether the regular-expression engine finds a match of the compiled
    pattern that starts at a given position of the text.
\<close>

record pylib =
  utf_decode :: "byte list \<Rightarrow> string + string"
  re_syntax_error :: "string \<Rightarrow> string option"
  re_match_at :: "re_Pattern \<Rightarrow> string \<Rightarrow> nat \<Rightarrow> bool"

definition re_compile :: "pylib \<Rightarrow> string \<Rightarrow> re_flag list \<Rightarrow> py_raise + re_Pattern" where
  "re_compile lib src fl =
     (case re_syntax_error lib src of
        Some msg \<Rightarrow> Inl (Exception ''re.error'' msg)
      | None \<Rightarrow> Inr \<lparr>pattern_source = src, pattern_flags = fl\<rparr>)"

text \<open>
  \<^verbatim>\<open>Pattern.search\<close> scans the text for the first position at which the pattern
  matches, the end of the text included (a pattern may match the empty string there);
  the position found stands for the match object.
\<close>

definition Pattern_search :: "pylib \<Rightarrow> re_Pattern \<Rightarrow> string \<Rightarrow> nat option" where
  "Pattern_search lib p s = find (re_match_at lib p s) [0 ..< Suc (length s)]"

section \<open>The fetcher\<close>

text \<open>
  One call of \<^verbatim>\<open>fetch_page_data\<close> sees the outside world through two things: what
  \<^verbatim>\<open>session.get\<close> followed by \<^verbatim>\<open>response.read()\<close> does with the request it is
  given, and what the successive calls of \<^verbatim>\<open>datetime.now()\<close> return (\<open>clock k\<close> is the
  reading of the \<open>k\<close>-th call, counted from 0, within this call of the fetcher).
\<close>

record request =
  req_url :: string
  req_allow_redirects :: bool
  req_timeout :: int

datatype http_outcome =
    Response int "byte list"
  | Raised py_raise

record fetch_env =
  http_get :: "request \<Rightarrow> http_outcome"
  clock :: "nat \<Rightarrow> real"

record queues =
  result_queue :: "pydict list"
  error_queue :: "pydict list"

text \<open>
  \<^verbatim>\<open>
  def parse_web_page(pattern, data):
      if pattern is None:
          return
      parsed = pattern.search(data.decode('utf'))
      if parsed is None:
          return False
      return True
  \<close>
\<close>

definition parse_web_page :: "pylib \<Rightarrow> re_Pattern option \<Rightarrow> byte list \<Rightarrow> py_raise + pyval" where
  "parse_web_page lib pattern data =
     (case pattern of
        None \<Rightarrow> Inr PyNone
      | Some p \<Rightarrow>
          (case utf_decode lib data of
             Inl msg \<Rightarrow> Inl (Exception ''UnicodeDecodeError'' msg)
           | Inr text \<Rightarrow>
               (case Pattern_search lib p text of
                  None \<Rightarrow> Inr (PyBool False)
                | Some m \<Rightarrow> Inr (PyBool True))))"

text \<open>
  The handler of \<^verbatim>\<open>fetch_page_data\<close>:
  \<^verbatim>\<open>
  except Exception as error:
      polling_results['error'] = f'{type(error)}--{error}',
      error_queue.append(polling_results)
      return (datetime.now() - start_timestamp).total_seconds()
  \<close>
  The assignment ends in a comma, so the value stored is a tuple of one string. The
  handler receives the dictionary as the \<^verbatim>\<open>try\<close> block left it and the reading \<open>t\<close>
  of the clock that its \<^verbatim>\<open>datetime.now()\<close> returns. A raised object that is no
  instance of \<^verbatim>\<open>Exception\<close> leaves the function, the queues untouched.
\<close>

definition except_Exception ::
  "pydict \<Rightarrow> real \<Rightarrow> real \<Rightarrow> queues \<Rightarrow> py_raise \<Rightarrow> (py_raise + real) \<times> queues" where
  "except_Exception polling_results start_timestamp t qs error =
     (case error of
        Exception cls msg \<Rightarrow>
          (Inr (t - start_timestamp),
           qs\<lparr>error_queue := error_queue qs @
                [polling_results(''error'' \<mapsto> PyTuple [PyStr (str_type cls @ ''--'' @ msg)])]\<rparr>)
      | BaseException cls msg \<Rightarrow> (Inl error, qs))"

text \<open>
  \<^verbatim>\<open>
  start_timestamp = datetime.now()
  polling_results = {'url': url, 'timestamp': start_timestamp}
  try:
      async with session.get(url, allow_redirects=True, timeout=timeout) as response:
          content = await response.read()
      polling_results['duration'] = (datetime.now() - start_timestamp).total_seconds()
      polling_results['status_code'] = response.status
      polling_results['regex_found'] = parse_web_page(regex, content)
      result_queue.append(polling_results)
      return polling_results['duration']
  except Exception as error: ...
  \<close>
  The function returns the duration, or the object that left it, and the two queues. The
  queues are touched by a single \<^verbatim>\<open>append\<close> with no suspension point around it, so the
  call acts on the queues as they are at that moment.
\<close>

definition fetch_page_data ::
  "pylib \<Rightarrow> fetch_env \<Rightarrow> string \<Rightarrow> queues \<Rightarrow> re_Pattern option \<Rightarrow> int
     \<Rightarrow> (py_raise + real) \<times> queues" where
  "fetch_page_data lib env url qs regex timeout =
     (let start_timestamp = clock env 0;
          polling_results = [''url'' \<mapsto> PyStr url, ''timestamp'' \<mapsto> PyDatetime start_timestamp]
      in case http_get env \<lparr>req_url = url, req_allow_redirects = True, req_timeout = timeout\<rparr> of
           Raised error \<Rightarrow>
             except_Exception polling_results start_timestamp (clock env 1) qs error
         | Response status content \<Rightarrow>
             (let duration = clock env 1 - start_timestamp;
                  polling_results = polling_results(''duration'' \<mapsto> PyFloat duration);
                  polling_results = polling_results(''status_code'' \<mapsto> PyInt status)
              in case parse_web_page lib regex content of
                   Inl error \<Rightarrow>
                     except_Exception polling_results start_timestamp (clock env 2) qs error
                 | Inr found \<Rightarrow>
                     (Inr duration,
                      qs\<lparr>result_queue := result_queue qs @
                           [polling_results(''regex_found'' \<mapsto> found)]\<rparr>)))"

text \<open>
  A call is interrupted when the object raised by the request is no instance of
  \<^verbatim>\<open>Exception\<close>: the task was cancelled or the interpreter is shutting down.
\<close>

definition interrupted :: "fetch_env \<Rightarrow> string \<Rightarrow> int \<Rightarrow> bool" where
  "interrupted env url timeout =
     (case http_get env \<lparr>req_url = url, req_allow_redirects = True, req_timeout = timeout\<rparr> of
        Raised error \<Rightarrow> \<not> is_Exception error
      | Response status content \<Rightarrow> False)"

text \<open>
  A run of fetch attempts over the two shared queues, in the order in which the attempts
  reach their \<^verbatim>\<open>append\<close>; each attempt has its own target, pattern, timeout and view
  of the world.
\<close>

record attempt =
  att_env :: fetch_env
  att_url :: string
  att_regex :: "re_Pattern option"
  att_timeout :: int

fun fetch_all :: "pylib \<Rightarrow> attempt list \<Rightarrow> queues \<Rightarrow> queues" where
  "fetch_all lib [] qs = qs"
| "fetch_all lib (a # as) qs =
     fetch_all lib as
       (snd (fetch_page_data lib (att_env a) (att_url a) qs (att_regex a) (att_timeout a)))"

definition attempt_interrupted :: "attempt \<Rightarrow> bool" where
  "attempt_interrupted a = interrupted (att_env a) (att_url a) (att_timeout a)"

section \<open>The poller\<close>

text \<open>
  \<^verbatim>\<open>
  async def website_poll(interval, session, url, result_queue, error_queue,
                         regex=None, timeout=4):
      while True:
          duration = await fetch_page_data(session, url, result_queue, error_queue,
                                           regex=regex, timeout=timeout)
          await asyncio.sleep(max(0.1, interval - duration))
  \<close>
  A task is the set of arguments \<^verbatim>\<open>website_poll\<close> runs with. One cycle of its loop
  returns the time it then sleeps, or the object that left the fetcher; the loop is run
  over the views of the world of its successive cycles and ends when an object leaves it.
\<close>

record website_poll_task =
  task_interval :: real
  task_url :: string
  task_regex :: "re_Pattern option"
  task_timeout :: int

definition website_poll_default_timeout :: int where
  "website_poll_default_timeout = 4"

definition website_poll_cycle ::
  "pylib \<Rightarrow> fetch_env \<Rightarrow> website_poll_task \<Rightarrow> queues \<Rightarrow> (py_raise + real) \<times> queues" where
  "website_poll_cycle lib env task qs =
     (case fetch_page_data lib env (task_url task) qs (task_regex task) (task_timeout task) of
        (Inl error, qs') \<Rightarrow> (Inl error, qs')
      | (Inr duration, qs') \<Rightarrow> (Inr (max (1 / 10) (task_interval task - duration)), qs'))"

fun website_poll ::
  "pylib \<Rightarrow> fetch_env list \<Rightarrow> website_poll_task \<Rightarrow> queues
     \<Rightarrow> py_raise option \<times> real list \<times> queues" where
  "website_poll lib [] task qs = (None, [], qs)"
| "website_poll lib (env # envs) task qs =
     (case website_poll_cycle lib env task qs of
        (Inl error, qs') \<Rightarrow> (Some error, [], qs')
      | (Inr sleep, qs') \<Rightarrow>
          (case website_poll lib envs task qs' of
             (r, sleeps, qs'') \<Rightarrow> (r, sleep # sleeps, qs'')))"

text \<open>
  An entry of the URL list is a tuple \<^verbatim>\<open>(url, interval)\<close> or
  \<^verbatim>\<open>(url, interval, pattern, ...)\<close>: \<open>UrlEntry url interval rest\<close> holds
  \<^verbatim>\<open>entry[0]\<close>, \<^verbatim>\<open>entry[1]\<close> and the items from \<^verbatim>\<open>entry[2]\<close> on, so that
  \<^verbatim>\<open>len(entry) > 2\<close> says that \<open>rest\<close> is not empty.
  \<^verbatim>\<open>
  def build_tasks(urldb, session, result_queue, error_queue):
      task_list = []
      for entry in urldb:
          if len(entry) > 2:
              regex = re.compile(entry[2], re.DOTALL)
          else:
              regex = None
          task = asyncio.create_task(
              website_poll(session=session, url=entry[0], interval=entry[1], regex=regex,
                           result_queue=result_queue, error_queue=error_queue))
          task_list.append(task)
      return task_list
  \<close>
  No \<^verbatim>\<open>timeout\<close> is passed to \<^verbatim>\<open>website_poll\<close>, which therefore runs with its
  default.
\<close>

datatype url_entry = UrlEntry string real "string list"

fun build_tasks :: "pylib \<Rightarrow> url_entry list \<Rightarrow> py_raise + website_poll_task list" where
  "build_tasks lib [] = Inr []"
| "build_tasks lib (UrlEntry url interval rest # urldb) =
     (case (case rest of
              [] \<Rightarrow> Inr None
            | src # others \<Rightarrow>
                (case re_compile lib src [DOTALL] of
                   Inl error \<Rightarrow> Inl error
                 | Inr p \<Rightarrow> Inr (Some p))) of
        Inl error \<Rightarrow> Inl error
      | Inr regex \<Rightarrow>
          (case build_tasks lib urldb of
             Inl error \<Rightarrow> Inl error
           | Inr task_list \<Rightarrow>
               Inr (\<lparr>task_interval = interval, task_url = url, task_regex = regex,
                      task_timeout = website_poll_default_timeout\<rparr> # task_list)))"

section \<open>The persistence sink\<close>

text \<open>
  \<^verbatim>\<open>DBHelper\<close> renders the two \<^verbatim>\<open>INSERT\<close> statements from its templates with
  \<^verbatim>\<open>str.format(table=...)\<close>:
  \<^verbatim>\<open>
  RESULT_SQL = ('INSERT INTO {table} '
                '(url, status_code, regex_found, timestamp, duration) '
                'VALUES '
                '(%(url)s, %(status_code)s, %(regex_found)s, '
                '%(timestamp)s, %(duration)s) ')
  ERROR_SQL = ('INSERT INTO {table} '
               '(url, error, timestamp) '
               'VALUES (%(url)s, %(error)s, %(timestamp)s) ')
  \<close>
\<close>

record DBHelper =
  db_user :: string
  db_password :: string
  db_host :: string
  db_port :: int
  db_name :: string
  result_table :: string
  error_table :: string

definition RESULT_SQL :: "string \<Rightarrow> string" where
  "RESULT_SQL table =
     ''INSERT INTO '' @ table @ '' '' @
     ''(url, status_code, regex_found, timestamp, duration) '' @
     ''VALUES '' @
     ''(%(url)s, %(status_code)s, %(regex_found)s, '' @
     ''%(timestamp)s, %(duration)s) ''"

definition ERROR_SQL :: "string \<Rightarrow> string" where
  "ERROR_SQL table =
     ''INSERT INTO '' @ table @ '' '' @
     ''(url, error, timestamp) '' @
     ''VALUES (%(url)s, %(error)s, %(timestamp)s) ''"

definition insert_result_sql :: "DBHelper \<Rightarrow> string" where
  "insert_result_sql db = RESULT_SQL (result_table db)"

definition insert_error_sql :: "DBHelper \<Rightarrow> string" where
  "insert_error_sql db = ERROR_SQL (error_table db)"

text \<open>
  The database driver binds a dictionary to the named placeholders \<^verbatim>\<open>%(name)s\<close> of a
  statement and raises \<^verbatim>\<open>KeyError\<close> for a placeholder the dictionary has no key for.
  \<open>placeholders\<close> lists the names in the order they occur.
\<close>

fun placeholders :: "string \<Rightarrow> string list" where
  "placeholders [] = []"
| "placeholders (c # cs) =
     (if c = CHR ''%'' \<and> take 1 cs = ''(''
      then [takeWhile (\<lambda>x. x \<noteq> CHR '')'') (drop 1 cs)]
      else []) @ placeholders cs"

text \<open>The strings a value holds: itself, or the items of a tuple.\<close>

fun pyval_strings :: "pyval \<Rightarrow> string list" where
  "pyval_strings (PyStr s) = [s]"
| "pyval_strings (PyTuple vs) = concat (map pyval_strings vs)"
| "pyval_strings v = []"

definition unbound_parameters :: "string \<Rightarrow> pydict \<Rightarrow> string list" where
  "unbound_parameters sql values = filter (\<lambda>k. values k = None) (placeholders sql)"

text \<open>
  The connection pool is seen through what the program does with it: it counts the
  calls of \<^verbatim>\<open>pool.acquire()\<close> and keeps the statements executed, each with the dictionary
  bound to it. Whether the database accepts a connection or a statement is a parameter.
\<close>

record pool =
  acquired :: nat
  executed :: "(string \<times> pydict) list"

record sink =
  acquire_error :: "pool \<Rightarrow> py_raise option"
  execute_error :: "pool \<Rightarrow> string \<Rightarrow> pydict \<Rightarrow> py_raise option"

definition cur_execute :: "sink \<Rightarrow> pool \<Rightarrow> string \<Rightarrow> pydict \<Rightarrow> py_raise + pool" where
  "cur_execute snk p sql values =
     (case unbound_parameters sql values of
        k # ks \<Rightarrow> Inl (Exception ''KeyError'' ([CHR 0x27] @ k @ [CHR 0x27]))
      | [] \<Rightarrow>
          (case execute_error snk p sql values of
             Some error \<Rightarrow> Inl error
           | None \<Rightarrow> Inr (p\<lparr>executed := executed p @ [(sql, values)]\<rparr>)))"

text \<open>
  \<^verbatim>\<open>
  async def write_to_db(pool, values_deck, sql):
      async with pool.acquire() as conn:
          async with conn.cursor() as cur:
              for values in values_deck:
                  await cur.execute(sql, values)
  \<close>
  The pool is shared and mutable, so the state it is left in is returned with the object
  raised, when one is.
\<close>

fun execute_each :: "sink \<Rightarrow> pool \<Rightarrow> pydict list \<Rightarrow> string \<Rightarrow> py_raise option \<times> pool" where
  "execute_each snk p [] sql = (None, p)"
| "execute_each snk p (values # values_deck) sql =
     (case cur_execute snk p sql values of
        Inl error \<Rightarrow> (Some error, p)
      | Inr p' \<Rightarrow> execute_each snk p' values_deck sql)"

definition write_to_db :: "sink \<Rightarrow> pool \<Rightarrow> pydict list \<Rightarrow> string \<Rightarrow> py_raise option \<times> pool" where
  "write_to_db snk p values_deck sql =
     (let p1 = p\<lparr>acquired := Suc (acquired p)\<rparr>
      in case acquire_error snk p of
           Some error \<Rightarrow> (Some error, p1)
         | None \<Rightarrow> execute_each snk p1 values_deck sql)"

section \<open>The batch flusher\<close>

text \<open>
  \<^verbatim>\<open>
  async def bulk_dump(pool, queue, sql, dump_interval=5):
      while True:
          await asyncio.sleep(dump_interval)
          dump_list = []
          if not queue:
              continue
          while queue:
              dump_list.append(queue.popleft())
          await write_to_db(pool, dump_list, sql)
  \<close>
  The inner loop moves the items of the queue to the end of \<open>dump_list\<close>, leftmost first.
\<close>

fun drain :: "'a list \<Rightarrow> 'a list \<Rightarrow> 'a list \<times> 'a list" where
  "drain [] dump_list = ([], dump_list)"
| "drain (x # queue) dump_list = drain queue (dump_list @ [x])"

text \<open>
  One cycle of the outer loop, from the moment the sleep ends. The drain has no
  suspension point, so nothing is appended to the queue while it runs; the producers run
  again while \<^verbatim>\<open>write_to_db\<close> is awaited, and \<open>pushed\<close> are the items they append in
  that time. The cycle returns the object that left it, if any, the pool and the queue.
\<close>

definition bulk_dump_cycle ::
  "sink \<Rightarrow> pool \<Rightarrow> pydict list \<Rightarrow> string \<Rightarrow> pydict list
     \<Rightarrow> py_raise option \<times> pool \<times> pydict list" where
  "bulk_dump_cycle snk p queue sql pushed =
     (if queue = [] then (None, p, queue)
      else
        (case drain queue [] of
           (queue', dump_list) \<Rightarrow>
             (case write_to_db snk p dump_list sql of
                (r, p') \<Rightarrow> (r, p', queue' @ pushed))))"

text \<open>
  The loop of \<^verbatim>\<open>bulk_dump\<close>, run over its successive cycles: each cycle is given the
  items appended to the queue during its sleep and those appended while it writes. The
  loop has no handler, so it ends with the first object raised.
\<close>

fun bulk_dump ::
  "sink \<Rightarrow> pool \<Rightarrow> pydict list \<Rightarrow> string \<Rightarrow> (pydict list \<times> pydict list) list
     \<Rightarrow> py_raise option \<times> pool \<times> pydict list" where
  "bulk_dump snk p queue sql [] = (None, p, queue)"
| "bulk_dump snk p queue sql ((slept, pushed) # cycles) =
     (case bulk_dump_cycle snk p (queue @ slept) sql pushed of
        (Some error, p', queue') \<Rightarrow> (Some error, p', queue')
      | (None, p', queue') \<Rightarrow> bulk_dump snk p' queue' sql cycles)"

section \<open>The orchestrator\<close>

text \<open>
  \<^verbatim>\<open>
  async def poll(db, urls, web_timeout=4, dump_interval=3):
      result_queue = deque()
      error_queue = deque()
      timeout = aiohttp.ClientTimeout(total=None, sock_connect=web_timeout,
                                      sock_read=web_timeout)
      async with aiopg.create_pool(db.dsn) as pool:
          async with aiohttp.ClientSession(timeout=timeout) as session:
              polling_tasks = build_tasks(urls, session, result_queue, error_queue)
              result_dumper = asyncio.create_task(
                  bulk_dump(pool, result_queue, db.insert_result_sql, dump_interval))
              error_dumper = asyncio.create_task(
                  bulk_dump(pool, error_queue, db.insert_error_sql, dump_interval))
              await asyncio.gather(result_dumper, error_dumper, *polling_tasks)
  \<close>
  What \<^verbatim>\<open>poll\<close> sets up before it waits: the queues, the timeout of the session, the
  polling tasks, and the statement and period of each dumper.
\<close>

record ClientTimeout =
  timeout_total :: "int option"
  timeout_sock_connect :: "int option"
  timeout_sock_read :: "int option"

record pipeline =
  pipe_queues :: queues
  session_timeout :: ClientTimeout
  polling_tasks :: "website_poll_task list"
  result_dumper :: "string \<times> real"
  error_dumper :: "string \<times> real"

definition poll :: "pylib \<Rightarrow> DBHelper \<Rightarrow> url_entry list \<Rightarrow> int \<Rightarrow> real \<Rightarrow> py_raise + pipeline" where
  "poll lib db urls web_timeout dump_interval =
     (let timeout = \<lparr>timeout_total = None, timeout_sock_connect = Some web_timeout,
                     timeout_sock_read = Some web_timeout\<rparr>
      in case build_tasks lib urls of
           Inl error \<Rightarrow> Inl error
         | Inr tasks \<Rightarrow>
             Inr \<lparr>pipe_queues = \<lparr>result_queue = [], error_queue = []\<rparr>,
                  session_timeout = timeout,
                  polling_tasks = tasks,
                  result_dumper = (insert_result_sql db, dump_interval),
                  error_dumper = (insert_error_sql db, dump_interval)\<rparr>)"

section \<open>Concrete libraries, worlds and sinks\<close>

text \<open>
  Instances of the parameters, on which the functions above are run: a decoder that
  accepts the ASCII subset of UTF-8, an engine whose patterns are texts in which a dot
  stands for any character (a newline only under \<^verbatim>\<open>DOTALL\<close>), and the
  worlds of a target that answers, of one that cannot be reached, of one that answers
  with bytes that are no UTF-8, and of a task cancelled during its request.
\<close>

definition ascii_decode :: "byte list \<Rightarrow> string + string" where
  "ascii_decode data =
     (if list_all (\<lambda>b. unat b < 128) data
      then Inr (map (\<lambda>b. char_of (unat b)) data)
      else Inl ''invalid start byte'')"

fun dot_prefix :: "bool \<Rightarrow> string \<Rightarrow> string \<Rightarrow> bool" where
  "dot_prefix dotall [] s = True"
| "dot_prefix dotall (c # cs) [] = False"
| "dot_prefix dotall (c # cs) (x # xs) =
     ((c = x \<or> (c = CHR ''.'' \<and> (dotall \<or> x \<noteq> CHR 0x0A))) \<and> dot_prefix dotall cs xs)"

definition dot_match_at :: "re_Pattern \<Rightarrow> string \<Rightarrow> nat \<Rightarrow> bool" where
  "dot_match_at p s i = dot_prefix (DOTALL \<in> set (pattern_flags p)) (pattern_source p) (drop i s)"

definition lib0 :: pylib where
  "lib0 = \<lparr>utf_decode = ascii_decode, re_syntax_error = (\<lambda>src. None),
           re_match_at = dot_match_at\<rparr>"

definition ticks :: "nat \<Rightarrow> real" where
  "ticks k = of_nat k / 4"

definition body_ok :: "byte list" where
  "body_ok = [0x69, 0x74, 0x0A, 0x6F, 0x6B]"

definition env_ok :: fetch_env where
  "env_ok = \<lparr>http_get = (\<lambda>r. Response 200 body_ok), clock = ticks\<rparr>"

definition env_unreachable :: fetch_env where
  "env_unreachable =
     \<lparr>http_get = (\<lambda>r. Raised (Exception ''aiohttp.client_exceptions.ClientConnectorError''
                                   ''Cannot connect to host blablabla.org:443'')),
      clock = ticks\<rparr>"

definition env_not_utf :: fetch_env where
  "env_not_utf = \<lparr>http_get = (\<lambda>r. Response 200 [0xFF]), clock = ticks\<rparr>"

definition env_cancelled :: fetch_env where
  "env_cancelled =
     \<lparr>http_get = (\<lambda>r. Raised (BaseException ''asyncio.exceptions.CancelledError'' [])),
      clock = ticks\<rparr>"

definition env_echo_timeout :: fetch_env where
  "env_echo_timeout = \<lparr>http_get = (\<lambda>r. Response (req_timeout r) []), clock = ticks\<rparr>"

definition no_queues :: queues where
  "no_queues = \<lparr>result_queue = [], error_queue = []\<rparr>"

definition pattern_ok :: re_Pattern where
  "pattern_ok = \<lparr>pattern_source = ''ok'', pattern_flags = [DOTALL]\<rparr>"

definition pattern_span :: re_Pattern where
  "pattern_span = \<lparr>pattern_source = ''t.o'', pattern_flags = [DOTALL]\<rparr>"

definition pattern_absent :: re_Pattern where
  "pattern_absent = \<lparr>pattern_source = ''down'', pattern_flags = [DOTALL]\<rparr>"

definition db0 :: DBHelper where
  "db0 = \<lparr>db_user = ''postgres'', db_password = ''postgres'', db_host = ''127.0.0.1'',
          db_port = 5433, db_name = ''postgres'', result_table = ''test_result_table'',
          error_table = ''test_error_table''\<rparr>"

definition pool0 :: pool where
  "pool0 = \<lparr>acquired = 0, executed = []\<rparr>"

definition sink_ok :: sink where
  "sink_ok = \<lparr>acquire_error = (\<lambda>p. None), execute_error = (\<lambda>p sql values. None)\<rparr>"

definition sink_down :: sink where
  "sink_down =
     \<lparr>acquire_error = (\<lambda>p. Some (Exception ''psycopg2.OperationalError'' ''connection refused'')),
      execute_error = (\<lambda>p sql values. None)\<rparr>"

definition row_a :: pydict where
  "row_a = [''url'' \<mapsto> PyStr ''a'', ''error'' \<mapsto> PyStr ''e'', ''timestamp'' \<mapsto> PyDatetime 0]"

definition row_b :: pydict where
  "row_b = [''url'' \<mapsto> PyStr ''b'', ''error'' \<mapsto> PyStr ''e'', ''timestamp'' \<mapsto> PyDatetime 1]"

definition row_c :: pydict where
  "row_c = [''url'' \<mapsto> PyStr ''c'', ''error'' \<mapsto> PyStr ''e'', ''timestamp'' \<mapsto> PyDatetime 2]"

definition env_slow :: fetch_env where
  "env_slow = \<lparr>http_get = (\<lambda>r. Response 200 body_ok), clock = (\<lambda>k. of_nat k * 5)\<rparr>"

definition task_python :: website_poll_task where
  "task_python = \<lparr>task_interval = 3, task_url = ''https://python.org'',
                  task_regex = None, task_timeout = 4\<rparr>"

definition att_ok :: attempt where
  "att_ok = \<lparr>att_env = env_ok, att_url = ''https://python.org'',
             att_regex = Some pattern_ok, att_timeout = 3\<rparr>"

definition att_unreachable :: attempt where
  "att_unreachable = \<lparr>att_env = env_unreachable, att_url = ''https://blablabla.org'',
                      att_regex = None, att_timeout = 5\<rparr>"

definition att_not_utf :: attempt where
  "att_not_utf = \<lparr>att_env = env_not_utf, att_url = ''https://python.org'',
                  att_regex = Some pattern_ok, att_timeout = 3\<rparr>"

section \<open>Properties of the fetcher\<close>

lemma Pattern_search_None_iff:
  "(Pattern_search lib p s = None) = (\<not> (\<exists>i \<le> length s. re_match_at lib p s i))"
proof -
  have "set [0 ..< Suc (length s)] = {i. i \<le> length s}" by auto
  then show ?thesis by (simp add: Pattern_search_def find_None_iff)
qed

lemma parse_web_page_Some:
  "utf_decode lib content = Inr decoded \<Longrightarrow>
     parse_web_page lib (Some p) content = Inr (PyBool (\<exists>i \<le> length decoded. re_match_at lib p decoded i))"
  using Pattern_search_None_iff [of lib p decoded]
  by (cases "Pattern_search lib p decoded") (simp_all add: parse_web_page_def)

lemma parse_web_page_None: "parse_web_page lib None content = Inr PyNone"
  by (simp add: parse_web_page_def)

lemma parse_web_page_decode_error:
  "utf_decode lib content = Inl msg \<Longrightarrow>
     parse_web_page lib (Some p) content = Inl (Exception ''UnicodeDecodeError'' msg)"
  by (simp add: parse_web_page_def)

lemma build_tasks_entries:
  "build_tasks lib urldb = Inr tasks \<Longrightarrow>
     list_all2 (\<lambda>entry task. case entry of UrlEntry url interval rest \<Rightarrow>
                  task_url task = url \<and> task_interval task = interval \<and>
                  task_timeout task = website_poll_default_timeout \<and>
                  task_regex task = (case rest of [] \<Rightarrow> None
                                     | src # others \<Rightarrow>
                                         Some \<lparr>pattern_source = src, pattern_flags = [DOTALL]\<rparr>))
       urldb tasks"
proof (induction urldb arbitrary: tasks)
  case Nil
  then show ?case by simp
next
  case (Cons entry urldb)
  obtain url interval rest where e: "entry = UrlEntry url interval rest"
    by (cases entry)
  from Cons.prems e obtain regex task_list where
    r: "(case rest of [] \<Rightarrow> Inr None
         | src # others \<Rightarrow> (case re_compile lib src [DOTALL] of
                              Inl error \<Rightarrow> Inl error | Inr p \<Rightarrow> Inr (Some p))) = Inr regex"
    and t: "build_tasks lib urldb = Inr task_list"
    and ts: "tasks = \<lparr>task_interval = interval, task_url = url, task_regex = regex,
                      task_timeout = website_poll_default_timeout\<rparr> # task_list"
    by (auto split: sum.splits)
  from r have "regex = (case rest of [] \<Rightarrow> None
                        | src # others \<Rightarrow> Some \<lparr>pattern_source = src, pattern_flags = [DOTALL]\<rparr>)"
    by (auto simp: re_compile_def split: list.splits sum.splits option.splits)
  with Cons.IH [OF t] e ts show ?case by simp
qed

lemma placeholders_append:
  "CHR ''%'' \<notin> set a \<Longrightarrow> placeholders (a @ b) = placeholders b"
  by (induction a) auto

lemma placeholders_RESULT_SQL:
  assumes "CHR ''%'' \<notin> set table"
  shows "placeholders (RESULT_SQL table)
           = [''url'', ''status_code'', ''regex_found'', ''timestamp'', ''duration'']"
proof -
  have "placeholders (RESULT_SQL table)
          = placeholders (''INSERT INTO '' @ (table @ '' (url, status_code, regex_found, timestamp, duration) VALUES (%(url)s, %(status_code)s, %(regex_found)s, %(timestamp)s, %(duration)s) ''))"
    by (simp add: RESULT_SQL_def)
  also have "\<dots> = placeholders (table @ '' (url, status_code, regex_found, timestamp, duration) VALUES (%(url)s, %(status_code)s, %(regex_found)s, %(timestamp)s, %(duration)s) '')"
    by (rule placeholders_append) simp
  also have "\<dots> = placeholders '' (url, status_code, regex_found, timestamp, duration) VALUES (%(url)s, %(status_code)s, %(regex_found)s, %(timestamp)s, %(duration)s) ''"
    using assms by (rule placeholders_append)
  also have "\<dots> = [''url'', ''status_code'', ''regex_found'', ''timestamp'', ''duration'']"
    by simp
  finally show ?thesis .
qed

lemma parse_web_page_Inl:
  "parse_web_page lib regex content = Inl error \<Longrightarrow>
     \<exists>p msg. regex = Some p \<and> utf_decode lib content = Inl msg \<and>
             error = Exception ''UnicodeDecodeError'' msg"
  by (auto simp: parse_web_page_def split: option.splits sum.splits)

lemma fetch_page_data_Response_Inr:
  assumes "http_get env \<lparr>req_url = url, req_allow_redirects = True, req_timeout = timeout\<rparr>
             = Response status content"
    and "parse_web_page lib regex content = Inr found"
  shows "fetch_page_data lib env url qs regex timeout =
           (Inr (clock env 1 - clock env 0),
            qs\<lparr>result_queue := result_queue qs @
               [[''url'' \<mapsto> PyStr url, ''timestamp'' \<mapsto> PyDatetime (clock env 0),
                 ''duration'' \<mapsto> PyFloat (clock env 1 - clock env 0),
                 ''status_code'' \<mapsto> PyInt status, ''regex_found'' \<mapsto> found]]\<rparr>)"
  using assms by (simp add: fetch_page_data_def Let_def)

lemma fetch_page_data_Response_Inl:
  assumes "http_get env \<lparr>req_url = url, req_allow_redirects = True, req_timeout = timeout\<rparr>
             = Response status content"
    and "parse_web_page lib regex content = Inl (Exception cls msg)"
  shows "fetch_page_data lib env url qs regex timeout =
           (Inr (clock env 2 - clock env 0),
            qs\<lparr>error_queue := error_queue qs @
               [[''url'' \<mapsto> PyStr url, ''timestamp'' \<mapsto> PyDatetime (clock env 0),
                 ''duration'' \<mapsto> PyFloat (clock env 1 - clock env 0),
                 ''status_code'' \<mapsto> PyInt status,
                 ''error'' \<mapsto> PyTuple [PyStr (str_type cls @ ''--'' @ msg)]]]\<rparr>)"
  using assms by (simp add: fetch_page_data_def Let_def except_Exception_def)

lemma fetch_page_data_Raised_Exception:
  assumes "http_get env \<lparr>req_url = url, req_allow_redirects = True, req_timeout = timeout\<rparr>
             = Raised (Exception cls msg)"
  shows "fetch_page_data lib env url qs regex timeout =
           (Inr (clock env 1 - clock env 0),
            qs\<lparr>error_queue := error_queue qs @
               [[''url'' \<mapsto> PyStr url, ''timestamp'' \<mapsto> PyDatetime (clock env 0),
                 ''error'' \<mapsto> PyTuple [PyStr (str_type cls @ ''--'' @ msg)]]]\<rparr>)"
  using assms by (simp add: fetch_page_data_def Let_def except_Exception_def)

lemma fetch_page_data_Raised_BaseException:
  assumes "http_get env \<lparr>req_url = url, req_allow_redirects = True, req_timeout = timeout\<rparr>
             = Raised (BaseException cls msg)"
  shows "fetch_page_data lib env url qs regex timeout = (Inl (BaseException cls msg), qs)"
  using assms by (simp add: fetch_page_data_def Let_def except_Exception_def)

text \<open>Every call that is not interrupted returns a duration and appends one record to one queue.\<close>

lemma fetch_page_data_cases:
  assumes "\<not> interrupted env url timeout"
  shows "\<exists>d r. fetch_page_data lib env url qs regex timeout
                  = (Inr d, qs\<lparr>result_queue := result_queue qs @ [r]\<rparr>) \<or>
               fetch_page_data lib env url qs regex timeout
                  = (Inr d, qs\<lparr>error_queue := error_queue qs @ [r]\<rparr>)"
proof (cases "http_get env \<lparr>req_url = url, req_allow_redirects = True, req_timeout = timeout\<rparr>")
  case (Response status content)
  show ?thesis
  proof (cases "parse_web_page lib regex content")
    case (Inl error)
    then obtain msg where "error = Exception ''UnicodeDecodeError'' msg"
      using parse_web_page_Inl by blast
    with Inl Response show ?thesis
      using fetch_page_data_Response_Inl by blast
  next
    case (Inr found)
    with Response show ?thesis
      using fetch_page_data_Response_Inr by blast
  qed
next
  case (Raised error)
  with assms obtain cls msg where "error = Exception cls msg"
    by (cases error) (auto simp: interrupted_def)
  with Raised show ?thesis
    using fetch_page_data_Raised_Exception by blast
qed

text \<open>A cancelled request passes through the handler and leaves the queues as they were.\<close>

lemma fetch_page_data_cancelled:
  "fetch_page_data lib0 env_cancelled ''https://python.org'' no_queues None 4
     = (Inl (BaseException ''asyncio.exceptions.CancelledError'' []), no_queues)"
  by (simp add: fetch_page_data_Raised_BaseException env_cancelled_def)

lemma parse_web_page_absent:
  "parse_web_page lib0 (Some pattern_absent) body_ok = Inr (PyBool False)"
  by code_simp

lemma queues_neq:
  "qs\<lparr>result_queue := result_queue qs @ [r]\<rparr> \<noteq> qs\<lparr>error_queue := error_queue qs @ [r']\<rparr>"
proof
  assume "qs\<lparr>result_queue := result_queue qs @ [r]\<rparr> = qs\<lparr>error_queue := error_queue qs @ [r']\<rparr>"
  then have "result_queue (qs\<lparr>result_queue := result_queue qs @ [r]\<rparr>)
             = result_queue (qs\<lparr>error_queue := error_queue qs @ [r']\<rparr>)" by simp
  then show False by simp
qed

lemma fetch_page_data_lengths:
  assumes "\<not> interrupted env url timeout"
  shows "length (result_queue (snd (fetch_page_data lib env url qs regex timeout)))
           + length (error_queue (snd (fetch_page_data lib env url qs regex timeout)))
         = Suc (length (result_queue qs) + length (error_queue qs))"
  using fetch_page_data_cases [OF assms, of lib qs regex] by auto

lemma fetch_all_lengths:
  "\<forall>a \<in> set as. \<not> attempt_interrupted a \<Longrightarrow>
     length (result_queue (fetch_all lib as qs)) + length (error_queue (fetch_all lib as qs))
       = length (result_queue qs) + length (error_queue qs) + length as"
proof (induction as arbitrary: qs)
  case Nil
  show ?case by simp
next
  case (Cons a as)
  from Cons.prems have a: "\<not> interrupted (att_env a) (att_url a) (att_timeout a)"
    and rest: "\<forall>a \<in> set as. \<not> attempt_interrupted a"
    by (simp_all add: attempt_interrupted_def)
  show ?case
    using Cons.IH [OF rest] fetch_page_data_lengths [OF a, of lib qs "att_regex a"]
    by simp
qed

text \<open>
  Claim C1. Every fetch attempt appends exactly one record to exactly one of the two
  queues: the queues after the call are the queues before it with one record added at
  the end of the result queue or of the error queue, and never of both; so after \<open>K\<close>
  attempts the lengths of the two queues have grown by \<open>K\<close> together. An attempt here
  is one that is not interrupted: an object that is no instance of \<^verbatim>\<open>Exception\<close>
  (the cancellation of the task) passes through the handler and leaves no record.
\<close>

theorem fetch_page_data_one_record_one_queue:
  "(\<not> interrupted env url timeout \<longrightarrow>
      ((\<exists>r. snd (fetch_page_data lib env url qs regex timeout)
               = qs\<lparr>result_queue := result_queue qs @ [r]\<rparr>) \<or>
       (\<exists>r. snd (fetch_page_data lib env url qs regex timeout)
               = qs\<lparr>error_queue := error_queue qs @ [r]\<rparr>)) \<and>
      \<not> ((\<exists>r. snd (fetch_page_data lib env url qs regex timeout)
               = qs\<lparr>result_queue := result_queue qs @ [r]\<rparr>) \<and>
         (\<exists>r. snd (fetch_page_data lib env url qs regex timeout)
               = qs\<lparr>error_queue := error_queue qs @ [r]\<rparr>))) \<and>
   ((\<forall>a \<in> set as. \<not> attempt_interrupted a) \<longrightarrow>
      length (result_queue (fetch_all lib as qs0)) + length (error_queue (fetch_all lib as qs0))
        = length (result_queue qs0) + length (error_queue qs0) + length as)"
proof (intro conjI impI)
  assume ni: "\<not> interrupted env url timeout"
  from fetch_page_data_cases [OF ni, of lib qs regex]
  show "(\<exists>r. snd (fetch_page_data lib env url qs regex timeout)
               = qs\<lparr>result_queue := result_queue qs @ [r]\<rparr>) \<or>
       (\<exists>r. snd (fetch_page_data lib env url qs regex timeout)
               = qs\<lparr>error_queue := error_queue qs @ [r]\<rparr>)"
    by auto
  show "\<not> ((\<exists>r. snd (fetch_page_data lib env url qs regex timeout)
               = qs\<lparr>result_queue := result_queue qs @ [r]\<rparr>) \<and>
         (\<exists>r. snd (fetch_page_data lib env url qs regex timeout)
               = qs\<lparr>error_queue := error_queue qs @ [r]\<rparr>))"
    using queues_neq by metis
next
  assume "\<forall>a \<in> set as. \<not> attempt_interrupted a"
  then show "length (result_queue (fetch_all lib as qs0)) + length (error_queue (fetch_all lib as qs0))
        = length (result_queue qs0) + length (error_queue qs0) + length as"
    by (rule fetch_all_lengths)
qed

theorem fetch_page_data_one_record_one_queue_witness:
  "\<not> interrupted env_unreachable ''https://blablabla.org'' 5 \<and>
   \<not> attempt_interrupted att_ok \<and> \<not> attempt_interrupted att_unreachable \<and>
   \<not> attempt_interrupted att_not_utf \<and>
   ((\<exists>r. snd (fetch_page_data lib0 env_unreachable ''https://blablabla.org'' no_queues None 5)
            = no_queues\<lparr>result_queue := result_queue no_queues @ [r]\<rparr>) \<or>
    (\<exists>r. snd (fetch_page_data lib0 env_unreachable ''https://blablabla.org'' no_queues None 5)
            = no_queues\<lparr>error_queue := error_queue no_queues @ [r]\<rparr>)) \<and>
   length (result_queue (fetch_all lib0 [att_ok, att_unreachable, att_not_utf] no_queues))
     + length (error_queue (fetch_all lib0 [att_ok, att_unreachable, att_not_utf] no_queues))
     = 3"
proof -
  have h1: "\<not> interrupted env_unreachable ''https://blablabla.org'' 5"
    by (simp add: interrupted_def env_unreachable_def)
  have h2: "\<not> attempt_interrupted att_ok" "\<not> attempt_interrupted att_unreachable"
    "\<not> attempt_interrupted att_not_utf"
    by (simp_all add: attempt_interrupted_def interrupted_def att_ok_def att_unreachable_def
        att_not_utf_def env_ok_def env_unreachable_def env_not_utf_def)
  from h2 have h3: "\<forall>a \<in> set [att_ok, att_unreachable, att_not_utf]. \<not> attempt_interrupted a"
    by simp
  from fetch_page_data_one_record_one_queue
         [of env_unreachable "''https://blablabla.org''" 5 lib0 no_queues None
             "[att_ok, att_unreachable, att_not_utf]" no_queues] h1 h3
  have "((\<exists>r. snd (fetch_page_data lib0 env_unreachable ''https://blablabla.org'' no_queues None 5)
            = no_queues\<lparr>result_queue := result_queue no_queues @ [r]\<rparr>) \<or>
    (\<exists>r. snd (fetch_page_data lib0 env_unreachable ''https://blablabla.org'' no_queues None 5)
            = no_queues\<lparr>error_queue := error_queue no_queues @ [r]\<rparr>))"
    and "length (result_queue (fetch_all lib0 [att_ok, att_unreachable, att_not_utf] no_queues))
     + length (error_queue (fetch_all lib0 [att_ok, att_unreachable, att_not_utf] no_queues))
     = length (result_queue no_queues) + length (error_queue no_queues)
       + length [att_ok, att_unreachable, att_not_utf]"
    by blast+
  moreover have "length (result_queue no_queues) + length (error_queue no_queues)
       + length [att_ok, att_unreachable, att_not_utf] = 3"
    by (simp add: no_queues_def)
  ultimately show ?thesis using h1 h2 by simp
qed

text \<open>
  Claim C4, as stated, fails. The record of a failed fetch has a \<^verbatim>\<open>duration\<close> only
  when the \<^verbatim>\<open>try\<close> block had stored one before the failure: the record of a target
  that cannot be reached has none.
\<close>

theorem error_record_fields_counterexample:
  "length (error_queue (snd (fetch_page_data lib0 env_unreachable ''https://blablabla.org''
                               no_queues None 5))) = 1 \<and>
   hd (error_queue (snd (fetch_page_data lib0 env_unreachable ''https://blablabla.org''
                           no_queues None 5))) ''duration'' = None"
  by (simp add: fetch_page_data_def Let_def env_unreachable_def except_Exception_def no_queues_def)

text \<open>
  Claim C4, amended. The record appended to the error queue for a failed request or body
  read has exactly the keys \<^verbatim>\<open>url\<close>, \<^verbatim>\<open>timestamp\<close> and \<^verbatim>\<open>error\<close>; the record
  of a body that fails to decode has the keys \<^verbatim>\<open>duration\<close> and \<^verbatim>\<open>status_code\<close> as
  well, stored before the failure. In both, the value under \<^verbatim>\<open>error\<close> holds the text
  \<^verbatim>\<open>f'{type(error)}--{error}'\<close>, the rendering of the type and the message of the error.
\<close>

theorem error_record_fields:
  "(http_get env \<lparr>req_url = url, req_allow_redirects = True, req_timeout = timeout\<rparr>
      = Raised (Exception cls msg) \<longrightarrow>
    (\<exists>r v. snd (fetch_page_data lib env url qs regex timeout)
             = qs\<lparr>error_queue := error_queue qs @ [r]\<rparr> \<and>
           dom r = {''url'', ''timestamp'', ''error''} \<and>
           r ''url'' = Some (PyStr url) \<and>
           r ''timestamp'' = Some (PyDatetime (clock env 0)) \<and>
           r ''error'' = Some v \<and>
           str_type cls @ ''--'' @ msg \<in> set (pyval_strings v))) \<and>
   (http_get env \<lparr>req_url = url, req_allow_redirects = True, req_timeout = timeout\<rparr>
      = Response status content \<and>
    parse_web_page lib regex content = Inl (Exception cls msg) \<longrightarrow>
    (\<exists>r v. snd (fetch_page_data lib env url qs regex timeout)
             = qs\<lparr>error_queue := error_queue qs @ [r]\<rparr> \<and>
           dom r = {''url'', ''timestamp'', ''duration'', ''status_code'', ''error''} \<and>
           r ''url'' = Some (PyStr url) \<and>
           r ''timestamp'' = Some (PyDatetime (clock env 0)) \<and>
           r ''duration'' = Some (PyFloat (clock env 1 - clock env 0)) \<and>
           r ''error'' = Some v \<and>
           str_type cls @ ''--'' @ msg \<in> set (pyval_strings v)))"
proof (intro conjI impI)
  assume "http_get env \<lparr>req_url = url, req_allow_redirects = True, req_timeout = timeout\<rparr>
            = Raised (Exception cls msg)"
  from fetch_page_data_Raised_Exception [OF this, of lib qs regex]
  show "\<exists>r v. snd (fetch_page_data lib env url qs regex timeout)
             = qs\<lparr>error_queue := error_queue qs @ [r]\<rparr> \<and>
           dom r = {''url'', ''timestamp'', ''error''} \<and>
           r ''url'' = Some (PyStr url) \<and>
           r ''timestamp'' = Some (PyDatetime (clock env 0)) \<and>
           r ''error'' = Some v \<and>
           str_type cls @ ''--'' @ msg \<in> set (pyval_strings v)"
    by (intro exI [of _ "[''url'' \<mapsto> PyStr url, ''timestamp'' \<mapsto> PyDatetime (clock env 0),
                 ''error'' \<mapsto> PyTuple [PyStr (str_type cls @ ''--'' @ msg)]]"]
              exI [of _ "PyTuple [PyStr (str_type cls @ ''--'' @ msg)]"]) auto
next
  assume "http_get env \<lparr>req_url = url, req_allow_redirects = True, req_timeout = timeout\<rparr>
            = Response status content \<and>
          parse_web_page lib regex content = Inl (Exception cls msg)"
  then have a: "http_get env \<lparr>req_url = url, req_allow_redirects = True, req_timeout = timeout\<rparr>
            = Response status content"
    and b: "parse_web_page lib regex content = Inl (Exception cls msg)" by simp_all
  from fetch_page_data_Response_Inl [OF a b, of qs]
  show "\<exists>r v. snd (fetch_page_data lib env url qs regex timeout)
             = qs\<lparr>error_queue := error_queue qs @ [r]\<rparr> \<and>
           dom r = {''url'', ''timestamp'', ''duration'', ''status_code'', ''error''} \<and>
           r ''url'' = Some (PyStr url) \<and>
           r ''timestamp'' = Some (PyDatetime (clock env 0)) \<and>
           r ''duration'' = Some (PyFloat (clock env 1 - clock env 0)) \<and>
           r ''error'' = Some v \<and>
           str_type cls @ ''--'' @ msg \<in> set (pyval_strings v)"
    by (intro exI [of _ "[''url'' \<mapsto> PyStr url, ''timestamp'' \<mapsto> PyDatetime (clock env 0),
                 ''duration'' \<mapsto> PyFloat (clock env 1 - clock env 0),
                 ''status_code'' \<mapsto> PyInt status,
                 ''error'' \<mapsto> PyTuple [PyStr (str_type cls @ ''--'' @ msg)]]"]
              exI [of _ "PyTuple [PyStr (str_type cls @ ''--'' @ msg)]"]) auto
qed

theorem error_record_fields_witness:
  "http_get env_unreachable
     \<lparr>req_url = ''https://blablabla.org'', req_allow_redirects = True, req_timeout = 5\<rparr>
     = Raised (Exception ''aiohttp.client_exceptions.ClientConnectorError''
                         ''Cannot connect to host blablabla.org:443'') \<and>
   (\<exists>r v. snd (fetch_page_data lib0 env_unreachable ''https://blablabla.org'' no_queues None 5)
             = no_queues\<lparr>error_queue := error_queue no_queues @ [r]\<rparr> \<and>
           dom r = {''url'', ''timestamp'', ''error''} \<and>
           r ''url'' = Some (PyStr ''https://blablabla.org'') \<and>
           r ''timestamp'' = Some (PyDatetime (clock env_unreachable 0)) \<and>
           r ''error'' = Some v \<and>
           str_type ''aiohttp.client_exceptions.ClientConnectorError'' @ ''--'' @
             ''Cannot connect to host blablabla.org:443'' \<in> set (pyval_strings v)) \<and>
   http_get env_not_utf
     \<lparr>req_url = ''https://python.org'', req_allow_redirects = True, req_timeout = 3\<rparr>
     = Response 200 [0xFF] \<and>
   parse_web_page lib0 (Some pattern_ok) [0xFF]
     = Inl (Exception ''UnicodeDecodeError'' ''invalid start byte'') \<and>
   (\<exists>r v. snd (fetch_page_data lib0 env_not_utf ''https://python.org'' no_queues
                  (Some pattern_ok) 3)
             = no_queues\<lparr>error_queue := error_queue no_queues @ [r]\<rparr> \<and>
           dom r = {''url'', ''timestamp'', ''duration'', ''status_code'', ''error''} \<and>
           r ''url'' = Some (PyStr ''https://python.org'') \<and>
           r ''timestamp'' = Some (PyDatetime (clock env_not_utf 0)) \<and>
           r ''duration'' = Some (PyFloat (clock env_not_utf 1 - clock env_not_utf 0)) \<and>
           r ''error'' = Some v \<and>
           str_type ''UnicodeDecodeError'' @ ''--'' @ ''invalid start byte''
             \<in> set (pyval_strings v))"
proof -
  have h1: "http_get env_unreachable
     \<lparr>req_url = ''https://blablabla.org'', req_allow_redirects = True, req_timeout = 5\<rparr>
     = Raised (Exception ''aiohttp.client_exceptions.ClientConnectorError''
                         ''Cannot connect to host blablabla.org:443'')"
    by (simp add: env_unreachable_def)
  have h2: "http_get env_not_utf
     \<lparr>req_url = ''https://python.org'', req_allow_redirects = True, req_timeout = 3\<rparr>
     = Response 200 [0xFF]"
    by (simp add: env_not_utf_def)
  have h3: "parse_web_page lib0 (Some pattern_ok) [0xFF]
     = Inl (Exception ''UnicodeDecodeError'' ''invalid start byte'')"
    by code_simp
  note c1 = error_record_fields
         [of env_unreachable "''https://blablabla.org''" 5
             "''aiohttp.client_exceptions.ClientConnectorError''"
             "''Cannot connect to host blablabla.org:443''" lib0 no_queues None,
          THEN conjunct1, THEN mp, OF h1]
  note c2 = error_record_fields
         [of env_not_utf "''https://python.org''" 3 "''UnicodeDecodeError''"
             "''invalid start byte''" lib0 no_queues "Some pattern_ok" 200 "[0xFF]",
          THEN conjunct2, THEN mp, OF conjI [OF h2 h3]]
  show ?thesis
    by (intro conjI h1 h2 h3 c1 c2)
qed

text \<open>
  Claim C5. \<^verbatim>\<open>fetch_page_data\<close> hands no exception to its caller: a call that is not
  interrupted returns a duration, and the cycle of the poller around it goes on to its
  sleep; an instance of \<^verbatim>\<open>Exception\<close> raised by the request or the body read, and
  the failure to decode the body under a configured pattern, each become one record with
  an \<^verbatim>\<open>error\<close> at the end of the error queue.
\<close>

theorem fetch_page_data_never_raises:
  "(\<not> interrupted env url timeout \<longrightarrow>
      (\<exists>d qs'. fetch_page_data lib env url qs regex timeout = (Inr d, qs')) \<and>
      (\<exists>sleep qs'. website_poll_cycle lib env
                       \<lparr>task_interval = interval, task_url = url, task_regex = regex,
                        task_timeout = timeout\<rparr> qs = (Inr sleep, qs'))) \<and>
   (http_get env \<lparr>req_url = url, req_allow_redirects = True, req_timeout = timeout\<rparr>
      = Raised error \<and> is_Exception error \<longrightarrow>
      (\<exists>d r. fetch_page_data lib env url qs regex timeout
                = (Inr d, qs\<lparr>error_queue := error_queue qs @ [r]\<rparr>) \<and>
             r ''error'' \<noteq> None)) \<and>
   (http_get env \<lparr>req_url = url, req_allow_redirects = True, req_timeout = timeout\<rparr>
      = Response status content \<and> utf_decode lib content = Inl msg \<longrightarrow>
      (\<exists>d r. fetch_page_data lib env url qs (Some p) timeout
                = (Inr d, qs\<lparr>error_queue := error_queue qs @ [r]\<rparr>) \<and>
             r ''error'' \<noteq> None))"
proof (intro conjI impI)
  assume ni: "\<not> interrupted env url timeout"
  from fetch_page_data_cases [OF ni, of lib qs regex]
  obtain d qs' where f: "fetch_page_data lib env url qs regex timeout = (Inr d, qs')"
    by blast
  then show "\<exists>d qs'. fetch_page_data lib env url qs regex timeout = (Inr d, qs')"
    by blast
  from f show "\<exists>sleep qs'. website_poll_cycle lib env
                       \<lparr>task_interval = interval, task_url = url, task_regex = regex,
                        task_timeout = timeout\<rparr> qs = (Inr sleep, qs')"
    by (simp add: website_poll_cycle_def)
next
  assume "http_get env \<lparr>req_url = url, req_allow_redirects = True, req_timeout = timeout\<rparr>
            = Raised error \<and> is_Exception error"
  then obtain cls m where
    "http_get env \<lparr>req_url = url, req_allow_redirects = True, req_timeout = timeout\<rparr>
       = Raised (Exception cls m)"
    by (cases error) auto
  from fetch_page_data_Raised_Exception [OF this, of lib qs regex]
  show "\<exists>d r. fetch_page_data lib env url qs regex timeout
                = (Inr d, qs\<lparr>error_queue := error_queue qs @ [r]\<rparr>) \<and>
             r ''error'' \<noteq> None"
    by (intro exI [of _ "clock env 1 - clock env 0"]
              exI [of _ "[''url'' \<mapsto> PyStr url, ''timestamp'' \<mapsto> PyDatetime (clock env 0),
                          ''error'' \<mapsto> PyTuple [PyStr (str_type cls @ ''--'' @ m)]]"]) simp
next
  assume "http_get env \<lparr>req_url = url, req_allow_redirects = True, req_timeout = timeout\<rparr>
            = Response status content \<and> utf_decode lib content = Inl msg"
  then have a: "http_get env \<lparr>req_url = url, req_allow_redirects = True, req_timeout = timeout\<rparr>
            = Response status content"
    and b: "parse_web_page lib (Some p) content = Inl (Exception ''UnicodeDecodeError'' msg)"
    by (simp_all add: parse_web_page_decode_error)
  from fetch_page_data_Response_Inl [OF a b, of qs]
  show "\<exists>d r. fetch_page_data lib env url qs (Some p) timeout
                = (Inr d, qs\<lparr>error_queue := error_queue qs @ [r]\<rparr>) \<and>
             r ''error'' \<noteq> None"
    by (intro exI [of _ "clock env 2 - clock env 0"]
              exI [of _ "[''url'' \<mapsto> PyStr url, ''timestamp'' \<mapsto> PyDatetime (clock env 0),
                 ''duration'' \<mapsto> PyFloat (clock env 1 - clock env 0),
                 ''status_code'' \<mapsto> PyInt status,
                 ''error'' \<mapsto> PyTuple [PyStr (str_type ''UnicodeDecodeError'' @ ''--'' @ msg)]]"])
       simp
qed

theorem fetch_page_data_never_raises_witness:
  "\<not> interrupted env_not_utf ''https://python.org'' 3 \<and>
   (\<exists>d qs'. fetch_page_data lib0 env_not_utf ''https://python.org'' no_queues
               (Some pattern_ok) 3 = (Inr d, qs')) \<and>
   http_get env_unreachable
     \<lparr>req_url = ''https://blablabla.org'', req_allow_redirects = True, req_timeout = 5\<rparr>
     = Raised (Exception ''aiohttp.client_exceptions.ClientConnectorError''
                         ''Cannot connect to host blablabla.org:443'') \<and>
   is_Exception (Exception ''aiohttp.client_exceptions.ClientConnectorError''
                           ''Cannot connect to host blablabla.org:443'') \<and>
   (\<exists>d r. fetch_page_data lib0 env_unreachable ''https://blablabla.org'' no_queues None 5
             = (Inr d, no_queues\<lparr>error_queue := error_queue no_queues @ [r]\<rparr>)) \<and>
   http_get env_not_utf
     \<lparr>req_url = ''https://python.org'', req_allow_redirects = True, req_timeout = 3\<rparr>
     = Response 200 [0xFF] \<and>
   utf_decode lib0 [0xFF] = Inl ''invalid start byte'' \<and>
   (\<exists>d r. fetch_page_data lib0 env_not_utf ''https://python.org'' no_queues
             (Some pattern_ok) 3
             = (Inr d, no_queues\<lparr>error_queue := error_queue no_queues @ [r]\<rparr>))"
proof -
  have h0: "\<not> interrupted env_not_utf ''https://python.org'' 3"
    by (simp add: interrupted_def env_not_utf_def)
  have h1: "http_get env_unreachable
     \<lparr>req_url = ''https://blablabla.org'', req_allow_redirects = True, req_timeout = 5\<rparr>
     = Raised (Exception ''aiohttp.client_exceptions.ClientConnectorError''
                         ''Cannot connect to host blablabla.org:443'')"
    by (simp add: env_unreachable_def)
  have h2: "is_Exception (Exception ''aiohttp.client_exceptions.ClientConnectorError''
                           ''Cannot connect to host blablabla.org:443'')"
    by simp
  have h3: "http_get env_not_utf
     \<lparr>req_url = ''https://python.org'', req_allow_redirects = True, req_timeout = 3\<rparr>
     = Response 200 [0xFF]"
    by (simp add: env_not_utf_def)
  have h4: "utf_decode lib0 [0xFF] = Inl ''invalid start byte''"
    by code_simp
  from h0 fetch_page_data_never_raises
         [of env_not_utf "''https://python.org''" 3 lib0 no_queues "Some pattern_ok"]
  have c0: "\<exists>d qs'. fetch_page_data lib0 env_not_utf ''https://python.org'' no_queues
               (Some pattern_ok) 3 = (Inr d, qs')"
    by blast
  from h1 h2 fetch_page_data_never_raises
         [of env_unreachable "''https://blablabla.org''" 5 lib0 no_queues None _
             "Exception ''aiohttp.client_exceptions.ClientConnectorError''
                        ''Cannot connect to host blablabla.org:443''"]
  have c1: "\<exists>d r. fetch_page_data lib0 env_unreachable ''https://blablabla.org'' no_queues None 5
             = (Inr d, no_queues\<lparr>error_queue := error_queue no_queues @ [r]\<rparr>)"
    by blast
  from h3 h4 fetch_page_data_never_raises
         [of env_not_utf "''https://python.org''" 3 lib0 no_queues _ _ _ 200 "[0xFF]"
             "''invalid start byte''" pattern_ok]
  have c2: "\<exists>d r. fetch_page_data lib0 env_not_utf ''https://python.org'' no_queues
             (Some pattern_ok) 3
             = (Inr d, no_queues\<lparr>error_queue := error_queue no_queues @ [r]\<rparr>)"
    by blast
  from h0 h1 h2 h3 h4 c0 c1 c2 show ?thesis by blast
qed

text \<open>
  Claim C6. The record of a successful fetch with a configured pattern holds, under
  \<^verbatim>\<open>regex_found\<close>, whether the pattern matches at some position of the decoded body
  (\<^verbatim>\<open>search\<close>, not anchored at the start): true when it does and false when it does
  not; with no pattern the value is \<^verbatim>\<open>None\<close>. The patterns of the tasks are compiled
  with \<^verbatim>\<open>re.DOTALL\<close>, so that a dot matches a newline as well, and a task has a
  pattern exactly when its entry has a third item.
\<close>

theorem regex_found_reports_search:
  "(http_get env \<lparr>req_url = url, req_allow_redirects = True, req_timeout = timeout\<rparr>
      = Response status content \<and> utf_decode lib content = Inr decoded \<longrightarrow>
      (\<exists>r. result_queue (snd (fetch_page_data lib env url qs (Some p) timeout))
               = result_queue qs @ [r] \<and>
            r ''regex_found''
              = Some (PyBool (\<exists>i \<le> length decoded. re_match_at lib p decoded i)))) \<and>
   (http_get env \<lparr>req_url = url, req_allow_redirects = True, req_timeout = timeout\<rparr>
      = Response status content \<longrightarrow>
      (\<exists>r. result_queue (snd (fetch_page_data lib env url qs None timeout))
               = result_queue qs @ [r] \<and>
            r ''regex_found'' = Some PyNone)) \<and>
   (build_tasks lib urldb = Inr tasks \<longrightarrow>
      list_all2 (\<lambda>entry task. case entry of UrlEntry u interval rest \<Rightarrow>
                   task_regex task = (case rest of [] \<Rightarrow> None
                                      | src # others \<Rightarrow>
                                          Some \<lparr>pattern_source = src, pattern_flags = [DOTALL]\<rparr>))
        urldb tasks)"
proof (intro conjI impI)
  assume "http_get env \<lparr>req_url = url, req_allow_redirects = True, req_timeout = timeout\<rparr>
            = Response status content \<and> utf_decode lib content = Inr decoded"
  then have a: "http_get env \<lparr>req_url = url, req_allow_redirects = True, req_timeout = timeout\<rparr>
            = Response status content"
    and b: "parse_web_page lib (Some p) content
              = Inr (PyBool (\<exists>i \<le> length decoded. re_match_at lib p decoded i))"
    by (simp_all add: parse_web_page_Some)
  show "\<exists>r. result_queue (snd (fetch_page_data lib env url qs (Some p) timeout))
               = result_queue qs @ [r] \<and>
            r ''regex_found''
              = Some (PyBool (\<exists>i \<le> length decoded. re_match_at lib p decoded i))"
    by (simp add: fetch_page_data_Response_Inr [OF a b])
next
  assume a: "http_get env \<lparr>req_url = url, req_allow_redirects = True, req_timeout = timeout\<rparr>
            = Response status content"
  show "\<exists>r. result_queue (snd (fetch_page_data lib env url qs None timeout))
               = result_queue qs @ [r] \<and> r ''regex_found'' = Some PyNone"
    by (simp add: fetch_page_data_Response_Inr [OF a parse_web_page_None])
next
  assume "build_tasks lib urldb = Inr tasks"
  from build_tasks_entries [OF this]
  show "list_all2 (\<lambda>entry task. case entry of UrlEntry u interval rest \<Rightarrow>
                   task_regex task = (case rest of [] \<Rightarrow> None
                                      | src # others \<Rightarrow>
                                          Some \<lparr>pattern_source = src, pattern_flags = [DOTALL]\<rparr>))
        urldb tasks"
    by (rule list_all2_mono) (auto split: url_entry.splits)
qed

theorem regex_found_reports_search_witness:
  "http_get env_ok
     \<lparr>req_url = ''https://python.org'', req_allow_redirects = True, req_timeout = 3\<rparr>
     = Response 200 body_ok \<and>
   utf_decode lib0 body_ok = Inr [CHR ''i'', CHR ''t'', CHR 0x0A, CHR ''o'', CHR ''k''] \<and>
   re_match_at lib0 pattern_span [CHR ''i'', CHR ''t'', CHR 0x0A, CHR ''o'', CHR ''k''] 1 \<and>
   (\<exists>r. result_queue (snd (fetch_page_data lib0 env_ok ''https://python.org'' no_queues
                             (Some pattern_span) 3))
           = result_queue no_queues @ [r] \<and>
         r ''regex_found''
           = Some (PyBool (\<exists>i \<le> length [CHR ''i'', CHR ''t'', CHR 0x0A, CHR ''o'', CHR ''k''].
                             re_match_at lib0 pattern_span
                               [CHR ''i'', CHR ''t'', CHR 0x0A, CHR ''o'', CHR ''k''] i))) \<and>
   (\<exists>r. result_queue (snd (fetch_page_data lib0 env_ok ''https://python.org'' no_queues
                             None 3))
           = result_queue no_queues @ [r] \<and>
         r ''regex_found'' = Some PyNone) \<and>
   build_tasks lib0 [UrlEntry ''https://python.org'' 3 [''t.o''],
                     UrlEntry ''https://blablabla.org'' 3 []]
     = Inr [\<lparr>task_interval = 3, task_url = ''https://python.org'',
              task_regex = Some pattern_span, task_timeout = 4\<rparr>,
            \<lparr>task_interval = 3, task_url = ''https://blablabla.org'',
              task_regex = None, task_timeout = 4\<rparr>] \<and>
   list_all2 (\<lambda>entry task. case entry of UrlEntry u interval rest \<Rightarrow>
                task_regex task = (case rest of [] \<Rightarrow> None
                                   | src # others \<Rightarrow>
                                       Some \<lparr>pattern_source = src, pattern_flags = [DOTALL]\<rparr>))
     [UrlEntry ''https://python.org'' 3 [''t.o''], UrlEntry ''https://blablabla.org'' 3 []]
     [\<lparr>task_interval = 3, task_url = ''https://python.org'',
        task_regex = Some pattern_span, task_timeout = 4\<rparr>,
      \<lparr>task_interval = 3, task_url = ''https://blablabla.org'',
        task_regex = None, task_timeout = 4\<rparr>]"
proof -
  have h1: "http_get env_ok
     \<lparr>req_url = ''https://python.org'', req_allow_redirects = True, req_timeout = 3\<rparr>
     = Response 200 body_ok"
    by (simp add: env_ok_def)
  have h2: "utf_decode lib0 body_ok = Inr [CHR ''i'', CHR ''t'', CHR 0x0A, CHR ''o'', CHR ''k'']"
    by code_simp
  have h3: "re_match_at lib0 pattern_span [CHR ''i'', CHR ''t'', CHR 0x0A, CHR ''o'', CHR ''k''] 1"
    by code_simp
  have h4: "build_tasks lib0 [UrlEntry ''https://python.org'' 3 [''t.o''],
                     UrlEntry ''https://blablabla.org'' 3 []]
     = Inr [\<lparr>task_interval = 3, task_url = ''https://python.org'',
              task_regex = Some pattern_span, task_timeout = 4\<rparr>,
            \<lparr>task_interval = 3, task_url = ''https://blablabla.org'',
              task_regex = None, task_timeout = 4\<rparr>]"
    by (simp add: re_compile_def lib0_def pattern_span_def website_poll_default_timeout_def)
  note c1 = regex_found_reports_search
      [where env = env_ok and url = "''https://python.org''" and timeout = 3 and lib = lib0
         and status = 200 and content = body_ok and p = pattern_span and qs = no_queues
         and decoded = "[CHR ''i'', CHR ''t'', CHR 0x0A, CHR ''o'', CHR ''k'']",
       THEN conjunct1, THEN mp, OF conjI [OF h1 h2]]
  note c2 = regex_found_reports_search
      [where env = env_ok and url = "''https://python.org''" and timeout = 3 and lib = lib0
         and status = 200 and content = body_ok and qs = no_queues,
       THEN conjunct2, THEN conjunct1, THEN mp, OF h1]
  note c3 = regex_found_reports_search
      [where lib = lib0, THEN conjunct2, THEN conjunct2, THEN mp, OF h4]
  show ?thesis
    by (intro conjI h1 h2 h3 h4 c1 c2 c3)
qed

text \<open>
  Claim C10. The record of a successful fetch always has the key \<^verbatim>\<open>regex_found\<close>: its
  value is what \<^verbatim>\<open>parse_web_page\<close> returned, \<^verbatim>\<open>None\<close> when no pattern is
  configured. The statement rendered from \<^verbatim>\<open>RESULT_SQL\<close> has \<^verbatim>\<open>regex_found\<close> among
  its placeholders, and the record leaves none of them without a value (the table name
  is taken to hold no percent sign).
\<close>

theorem result_record_binds_regex_found:
  "(http_get env \<lparr>req_url = url, req_allow_redirects = True, req_timeout = timeout\<rparr>
      = Response status content \<and> parse_web_page lib regex content = Inr found \<and>
    CHR ''%'' \<notin> set (result_table db) \<longrightarrow>
      (\<exists>r. result_queue (snd (fetch_page_data lib env url qs regex timeout))
               = result_queue qs @ [r] \<and>
            r ''regex_found'' = Some found \<and>
            ''regex_found'' \<in> set (placeholders (insert_result_sql db)) \<and>
            unbound_parameters (insert_result_sql db) r = [])) \<and>
   (http_get env \<lparr>req_url = url, req_allow_redirects = True, req_timeout = timeout\<rparr>
      = Response status content \<and> CHR ''%'' \<notin> set (result_table db) \<longrightarrow>
      (\<exists>r. result_queue (snd (fetch_page_data lib env url qs None timeout))
               = result_queue qs @ [r] \<and>
            r ''regex_found'' = Some PyNone \<and>
            unbound_parameters (insert_result_sql db) r = []))"
proof (intro conjI impI)
  assume "http_get env \<lparr>req_url = url, req_allow_redirects = True, req_timeout = timeout\<rparr>
            = Response status content \<and> parse_web_page lib regex content = Inr found \<and>
          CHR ''%'' \<notin> set (result_table db)"
  then have a: "http_get env \<lparr>req_url = url, req_allow_redirects = True, req_timeout = timeout\<rparr>
            = Response status content"
    and b: "parse_web_page lib regex content = Inr found"
    and c: "CHR ''%'' \<notin> set (result_table db)"
    by simp_all
  show "\<exists>r. result_queue (snd (fetch_page_data lib env url qs regex timeout))
               = result_queue qs @ [r] \<and>
            r ''regex_found'' = Some found \<and>
            ''regex_found'' \<in> set (placeholders (insert_result_sql db)) \<and>
            unbound_parameters (insert_result_sql db) r = []"
    by (simp add: fetch_page_data_Response_Inr [OF a b] insert_result_sql_def
          placeholders_RESULT_SQL [OF c] unbound_parameters_def)
next
  assume "http_get env \<lparr>req_url = url, req_allow_redirects = True, req_timeout = timeout\<rparr>
            = Response status content \<and> CHR ''%'' \<notin> set (result_table db)"
  then have a: "http_get env \<lparr>req_url = url, req_allow_redirects = True, req_timeout = timeout\<rparr>
            = Response status content"
    and c: "CHR ''%'' \<notin> set (result_table db)"
    by simp_all
  show "\<exists>r. result_queue (snd (fetch_page_data lib env url qs None timeout))
               = result_queue qs @ [r] \<and>
            r ''regex_found'' = Some PyNone \<and>
            unbound_parameters (insert_result_sql db) r = []"
    by (simp add: fetch_page_data_Response_Inr [OF a parse_web_page_None] insert_result_sql_def
          placeholders_RESULT_SQL [OF c] unbound_parameters_def)
qed

theorem result_record_binds_regex_found_witness:
  "http_get env_ok
     \<lparr>req_url = ''https://python.org'', req_allow_redirects = True, req_timeout = 3\<rparr>
     = Response 200 body_ok \<and>
   parse_web_page lib0 (Some pattern_ok) body_ok = Inr (PyBool True) \<and>
   CHR ''%'' \<notin> set (result_table db0) \<and>
   (\<exists>r. result_queue (snd (fetch_page_data lib0 env_ok ''https://python.org'' no_queues
                             (Some pattern_ok) 3))
           = result_queue no_queues @ [r] \<and>
         r ''regex_found'' = Some (PyBool True) \<and>
         ''regex_found'' \<in> set (placeholders (insert_result_sql db0)) \<and>
         unbound_parameters (insert_result_sql db0) r = []) \<and>
   (\<exists>r. result_queue (snd (fetch_page_data lib0 env_ok ''https://python.org'' no_queues
                             None 3))
           = result_queue no_queues @ [r] \<and>
         r ''regex_found'' = Some PyNone \<and>
         unbound_parameters (insert_result_sql db0) r = [])"
proof -
  have h1: "http_get env_ok
     \<lparr>req_url = ''https://python.org'', req_allow_redirects = True, req_timeout = 3\<rparr>
     = Response 200 body_ok"
    by (simp add: env_ok_def)
  have h2: "parse_web_page lib0 (Some pattern_ok) body_ok = Inr (PyBool True)"
    by code_simp
  have h3: "CHR ''%'' \<notin> set (result_table db0)"
    by (simp add: db0_def)
  note c1 = result_record_binds_regex_found
      [where env = env_ok and url = "''https://python.org''" and timeout = 3 and lib = lib0
         and status = 200 and content = body_ok and regex = "Some pattern_ok"
         and found = "PyBool True" and db = db0 and qs = no_queues,
       THEN conjunct1, THEN mp, OF conjI [OF h1 conjI [OF h2 h3]]]
  note c2 = result_record_binds_regex_found
      [where env = env_ok and url = "''https://python.org''" and timeout = 3 and lib = lib0
         and status = 200 and content = body_ok and regex = "Some pattern_ok"
         and found = "PyBool True" and db = db0 and qs = no_queues,
       THEN conjunct2, THEN mp, OF conjI [OF h1 h3]]
  show ?thesis
    by (intro conjI h1 h2 h3 c1 c2)
qed

section \<open>Properties of the poller and the orchestrator\<close>

text \<open>
  Claim C3. In every cycle of a poller with interval \<open>i\<close> whose fetch returned the
  duration \<open>d\<close>, the time slept before the next cycle is \<open>max 0.1 (i - d)\<close>, the
  constant \<open>0.1\<close> being the floor.
\<close>

theorem website_poll_sleep:
  "fst (fetch_page_data lib env (task_url task) qs (task_regex task) (task_timeout task))
     = Inr duration \<longrightarrow>
   fst (website_poll_cycle lib env task qs) = Inr (max (1 / 10) (task_interval task - duration)) \<and>
   snd (website_poll_cycle lib env task qs)
     = snd (fetch_page_data lib env (task_url task) qs (task_regex task) (task_timeout task)) \<and>
   fst (snd (website_poll lib [env] task qs)) = [max (1 / 10) (task_interval task - duration)]"
  by (cases "fetch_page_data lib env (task_url task) qs (task_regex task) (task_timeout task)")
     (simp add: website_poll_cycle_def)

theorem website_poll_sleep_witness:
  "fst (fetch_page_data lib0 env_ok (task_url task_python) no_queues (task_regex task_python)
          (task_timeout task_python)) = Inr (1 / 4) \<and>
   fst (website_poll_cycle lib0 env_ok task_python no_queues) = Inr (11 / 4) \<and>
   fst (fetch_page_data lib0 env_slow (task_url task_python) no_queues (task_regex task_python)
          (task_timeout task_python)) = Inr 5 \<and>
   fst (website_poll_cycle lib0 env_slow task_python no_queues) = Inr (1 / 10)"
proof -
  have h1: "fst (fetch_page_data lib0 env_ok (task_url task_python) no_queues
                   (task_regex task_python) (task_timeout task_python)) = Inr (1 / 4)"
    by (simp add: fetch_page_data_def Let_def env_ok_def task_python_def parse_web_page_def
          ticks_def)
  have h2: "fst (fetch_page_data lib0 env_slow (task_url task_python) no_queues
                   (task_regex task_python) (task_timeout task_python)) = Inr 5"
    by (simp add: fetch_page_data_def Let_def env_slow_def task_python_def parse_web_page_def)
  from website_poll_sleep [of lib0 env_ok task_python no_queues "1 / 4"] h1
  have c1: "fst (website_poll_cycle lib0 env_ok task_python no_queues) = Inr (11 / 4)"
    by (simp add: task_python_def)
  from website_poll_sleep [of lib0 env_slow task_python no_queues 5] h2
  have c2: "fst (website_poll_cycle lib0 env_slow task_python no_queues) = Inr (1 / 10)"
    by (simp add: task_python_def)
  show ?thesis
    by (intro conjI h1 h2 c1 c2)
qed

text \<open>
  Claim C7 does not hold of the code. Run as \<^verbatim>\<open>main\<close> runs it, with
  \<^verbatim>\<open>web_timeout = 3\<close>, \<^verbatim>\<open>poll\<close> puts the 3 into the timeout of the session
  only; \<^verbatim>\<open>build_tasks\<close> passes no timeout on, so the task runs with the default 4 of
  \<^verbatim>\<open>website_poll\<close>, and 4 is the timeout of the request that reaches the HTTP client
  (the world used here answers with the timeout of the request as its status).
\<close>

theorem poll_web_timeout_not_forwarded:
  "poll lib0 db0 [UrlEntry ''https://python.org'' 3 []] 3 3
     = Inr \<lparr>pipe_queues = \<lparr>result_queue = [], error_queue = []\<rparr>,
            session_timeout = \<lparr>timeout_total = None, timeout_sock_connect = Some 3,
                               timeout_sock_read = Some 3\<rparr>,
            polling_tasks = [task_python],
            result_dumper = (insert_result_sql db0, 3),
            error_dumper = (insert_error_sql db0, 3)\<rparr> \<and>
   task_timeout task_python = 4 \<and>
   hd (result_queue (snd (website_poll_cycle lib0 env_echo_timeout task_python no_queues)))
     ''status_code'' = Some (PyInt 4)"
  by (simp add: poll_def Let_def task_python_def website_poll_default_timeout_def
        website_poll_cycle_def fetch_page_data_def env_echo_timeout_def parse_web_page_def
        no_queues_def)

section \<open>Properties of the batch flusher\<close>

lemma drain_append: "drain queue dump_list = ([], dump_list @ queue)"
  by (induction queue arbitrary: dump_list) simp_all

lemma execute_each_acquired: "acquired (snd (execute_each snk p vs sql)) = acquired p"
  by (induction vs arbitrary: p)
     (auto simp: cur_execute_def split: sum.splits list.splits option.splits)

lemma execute_each_None:
  "execute_each snk p vs sql = (None, p') \<Longrightarrow>
     executed p' = executed p @ map (Pair sql) vs"
proof (induction vs arbitrary: p)
  case Nil
  then show ?case by simp
next
  case (Cons v vs)
  from Cons.prems obtain p1 where
    c: "cur_execute snk p sql v = Inr p1"
    and r: "execute_each snk p1 vs sql = (None, p')"
    by (auto split: sum.splits)
  from c have "executed p1 = executed p @ [(sql, v)]"
    by (auto simp: cur_execute_def split: list.splits option.splits)
  with Cons.IH [OF r] show ?case by simp
qed

lemma write_to_db_acquired:
  "acquired (snd (write_to_db snk p values_deck sql)) = Suc (acquired p)"
  by (simp add: write_to_db_def Let_def execute_each_acquired split: option.splits)

lemma write_to_db_None:
  "write_to_db snk p values_deck sql = (None, p') \<Longrightarrow>
     executed p' = executed p @ map (Pair sql) values_deck"
  by (auto simp: write_to_db_def Let_def split: option.splits dest: execute_each_None)

lemma bulk_dump_cycle_nonempty:
  "queue \<noteq> [] \<Longrightarrow>
     bulk_dump_cycle snk p queue sql pushed =
       (fst (write_to_db snk p queue sql), snd (write_to_db snk p queue sql), pushed)"
  by (simp add: bulk_dump_cycle_def drain_append split: prod.splits)

text \<open>
  Claim C2. The drain of a queue of \<open>M\<close> items yields those items as one batch in
  their order and leaves the queue empty. A cycle that finds the queue not empty hands
  the whole batch to \<^verbatim>\<open>write_to_db\<close> in one call, which acquires one connection; after
  the cycle the queue holds only what was appended while the batch was written, and when
  the write succeeds the statements executed are the batch, row by row in its order.
\<close>

theorem bulk_dump_cycle_drains:
  "drain queue [] = ([], queue) \<and>
   (queue \<noteq> [] \<longrightarrow>
      bulk_dump_cycle snk p queue sql pushed
        = (fst (write_to_db snk p queue sql), snd (write_to_db snk p queue sql), pushed) \<and>
      acquired (snd (write_to_db snk p queue sql)) = Suc (acquired p)) \<and>
   (queue \<noteq> [] \<and> write_to_db snk p queue sql = (None, p') \<longrightarrow>
      bulk_dump_cycle snk p queue sql pushed = (None, p', pushed) \<and>
      acquired p' = Suc (acquired p) \<and>
      executed p' = executed p @ map (Pair sql) queue)"
proof (intro conjI impI)
  show "drain queue [] = ([], queue)"
    by (simp add: drain_append)
next
  assume "queue \<noteq> []"
  then show "bulk_dump_cycle snk p queue sql pushed
        = (fst (write_to_db snk p queue sql), snd (write_to_db snk p queue sql), pushed)"
    by (rule bulk_dump_cycle_nonempty)
  show "acquired (snd (write_to_db snk p queue sql)) = Suc (acquired p)"
    by (rule write_to_db_acquired)
next
  assume a: "queue \<noteq> [] \<and> write_to_db snk p queue sql = (None, p')"
  then show "bulk_dump_cycle snk p queue sql pushed = (None, p', pushed)"
    by (simp add: bulk_dump_cycle_nonempty)
  from a write_to_db_acquired [of snk p queue sql]
  show "acquired p' = Suc (acquired p)" by simp
  from a have "write_to_db snk p queue sql = (None, p')" by simp
  then show "executed p' = executed p @ map (Pair sql) queue"
    by (rule write_to_db_None)
qed

theorem bulk_dump_cycle_drains_witness:
  "[row_a, row_b] \<noteq> [] \<and>
   write_to_db sink_ok pool0 [row_a, row_b] (insert_error_sql db0)
     = (None, \<lparr>acquired = 1, executed = [(insert_error_sql db0, row_a),
                                          (insert_error_sql db0, row_b)]\<rparr>) \<and>
   bulk_dump_cycle sink_ok pool0 [row_a, row_b] (insert_error_sql db0) [row_c]
     = (None, \<lparr>acquired = 1, executed = [(insert_error_sql db0, row_a),
                                          (insert_error_sql db0, row_b)]\<rparr>, [row_c])"
proof -
  have h1: "[row_a, row_b] \<noteq> []" by simp
  have u: "unbound_parameters (insert_error_sql db0) row_a = []"
    "unbound_parameters (insert_error_sql db0) row_b = []"
    by (simp_all add: unbound_parameters_def insert_error_sql_def ERROR_SQL_def db0_def
          row_a_def row_b_def)
  have h2: "write_to_db sink_ok pool0 [row_a, row_b] (insert_error_sql db0)
     = (None, \<lparr>acquired = 1, executed = [(insert_error_sql db0, row_a),
                                          (insert_error_sql db0, row_b)]\<rparr>)"
    by (simp add: write_to_db_def Let_def sink_ok_def pool0_def cur_execute_def u)
  from bulk_dump_cycle_drains
         [of "[row_a, row_b]" sink_ok pool0 "insert_error_sql db0" "[row_c]"
             "\<lparr>acquired = 1, executed = [(insert_error_sql db0, row_a),
                                        (insert_error_sql db0, row_b)]\<rparr>"] h1 h2
  have c: "bulk_dump_cycle sink_ok pool0 [row_a, row_b] (insert_error_sql db0) [row_c]
     = (None, \<lparr>acquired = 1, executed = [(insert_error_sql db0, row_a),
                                          (insert_error_sql db0, row_b)]\<rparr>, [row_c])"
    by simp
  show ?thesis
    by (intro conjI h1 h2 c)
qed

text \<open>
  Claim C8. When the write of a drained batch raises, the object raised leaves the cycle
  and the loop of \<^verbatim>\<open>bulk_dump\<close>, whatever cycles would have followed; the queue is
  left with only what was appended during the write, the drained items are not put back,
  and the write was attempted once.
\<close>

theorem bulk_dump_failure_loses_batch:
  "queue @ slept \<noteq> [] \<and> write_to_db snk p (queue @ slept) sql = (Some error, p') \<longrightarrow>
     bulk_dump_cycle snk p (queue @ slept) sql pushed = (Some error, p', pushed) \<and>
     bulk_dump snk p queue sql ((slept, pushed) # cycles) = (Some error, p', pushed) \<and>
     acquired p' = Suc (acquired p)"
proof (intro impI)
  assume a: "queue @ slept \<noteq> [] \<and> write_to_db snk p (queue @ slept) sql = (Some error, p')"
  then have ne: "queue @ slept \<noteq> []"
    and w: "write_to_db snk p (queue @ slept) sql = (Some error, p')"
    by blast+
  have c: "bulk_dump_cycle snk p (queue @ slept) sql pushed = (Some error, p', pushed)"
    using bulk_dump_cycle_nonempty [OF ne, of snk p sql pushed] w by simp
  have "bulk_dump snk p queue sql ((slept, pushed) # cycles) = (Some error, p', pushed)"
    by (simp add: c)
  moreover from w write_to_db_acquired [of snk p "queue @ slept" sql]
  have "acquired p' = Suc (acquired p)" by simp
  ultimately show "bulk_dump_cycle snk p (queue @ slept) sql pushed = (Some error, p', pushed) \<and>
     bulk_dump snk p queue sql ((slept, pushed) # cycles) = (Some error, p', pushed) \<and>
     acquired p' = Suc (acquired p)"
    using c by simp
qed

theorem bulk_dump_failure_loses_batch_witness:
  "[row_a] @ [row_b] \<noteq> [] \<and>
   write_to_db sink_down pool0 ([row_a] @ [row_b]) (insert_error_sql db0)
     = (Some (Exception ''psycopg2.OperationalError'' ''connection refused''),
        \<lparr>acquired = 1, executed = []\<rparr>) \<and>
   bulk_dump sink_down pool0 [row_a] (insert_error_sql db0) [([row_b], [row_c]), ([], [])]
     = (Some (Exception ''psycopg2.OperationalError'' ''connection refused''),
        \<lparr>acquired = 1, executed = []\<rparr>, [row_c])"
proof -
  have h1: "[row_a] @ [row_b] \<noteq> []" by simp
  have h2: "write_to_db sink_down pool0 ([row_a] @ [row_b]) (insert_error_sql db0)
     = (Some (Exception ''psycopg2.OperationalError'' ''connection refused''),
        \<lparr>acquired = 1, executed = []\<rparr>)"
    by (simp add: write_to_db_def Let_def sink_down_def pool0_def)
  from bulk_dump_failure_loses_batch
         [of "[row_a]" "[row_b]" sink_down pool0 "insert_error_sql db0"
             "Exception ''psycopg2.OperationalError'' ''connection refused''"
             "\<lparr>acquired = 1, executed = []\<rparr>" "[row_c]" "[([], [])]"] h1 h2
  have c: "bulk_dump sink_down pool0 [row_a] (insert_error_sql db0) [([row_b], [row_c]), ([], [])]
     = (Some (Exception ''psycopg2.OperationalError'' ''connection refused''),
        \<lparr>acquired = 1, executed = []\<rparr>, [row_c])"
    by blast
  show ?thesis
    by (intro conjI h1 h2 c)
qed

text \<open>
  Claim C9. A cycle that finds the queue empty leaves the pool as it was (no connection
  acquired, no statement executed) and the queue empty, and raises nothing; draining an
  empty queue, and draining what that left again, gives an empty batch both times, and two
  cycles in a row on an empty queue leave everything as it was.
\<close>

theorem bulk_dump_empty_queue:
  "bulk_dump_cycle snk p [] sql pushed = (None, p, []) \<and>
   drain ([] :: pydict list) [] = ([], []) \<and>
   fst (drain (fst (drain ([] :: pydict list) [])) []) = [] \<and>
   snd (drain (fst (drain ([] :: pydict list) [])) []) = [] \<and>
   bulk_dump snk p [] sql [([], pushed1), ([], pushed2)] = (None, p, [])"
  by (simp add: bulk_dump_cycle_def)

end
